theory Spec2Isabelle
  imports Main
begin

section \<open>The hosted backend as explicit state\<close>

text \<open>
  The front end talks to a hosted service through its client SDK. Every SDK call of the
  source answers with an object \<open>{data, error}\<close>; the model writes that answer as a
  sum, \<open>Inl\<close> carrying \<open>error.message\<close>. The tables, the file bucket and the
  signed-in identity live in one record, which every operation takes and returns.
  Columns that the modelled operations never read or write are left out of the rows.
  A column that is \<open>null\<close> or the empty string in a place where the code only tests
  its truthiness is the empty string here.
\<close>

type_synonym 'a response = "string + 'a"

text \<open>
  File names and storage paths are JavaScript strings whose positions the code counts
  (\<open>lastIndexOf\<close>, \<open>substring\<close>): they are lists of UTF-16 code units. The other
  texts of the model are only copied and compared and are \<open>string\<close>s; \<open>units\<close> reads
  such a text, whose characters are below U+0100, as code units.
\<close>

type_synonym jsstring = "nat list"

definition units :: "string \<Rightarrow> jsstring" where
  "units s = map of_char s"

datatype 'a result = Success 'a | Failure string

record auth_user =
  auth_uid :: string
  auth_email :: string

record user_row =
  u_id :: string
  u_auth_id :: string
  u_title :: string
  u_full_name :: string
  u_email :: string

record admin_row =
  a_id :: string
  a_auth_id :: string
  a_full_name :: string
  a_email :: string
  a_role :: string
  is_active :: bool

text \<open>
  The columns that \<open>uploadPaper\<close> sends, and the stored row: the database adds the
  primary key, the creation time and the (still empty) review columns.
\<close>

record paper_input =
  user_id :: string
  user_name :: string
  user_email :: string
  paper_title :: string
  abstract :: string
  paper_keywords :: "string list"
  file_name :: jsstring
  file_url :: jsstring
  file_size_bytes :: nat
  status :: string

record paper_row = paper_input +
  p_id :: string
  reviewed_by :: "string option"
  reviewer_name :: "string option"
  review_date :: "nat option"
  review_comments :: "string option"
  created_at :: nat

text \<open>The browser's \<open>File\<close>: the name and the size in bytes are all the code reads.\<close>

record js_file =
  f_name :: jsstring
  f_size :: nat

record metadata =
  m_title :: "string option"
  m_abstract :: "string option"
  m_keywords :: "string list option"

text \<open>
  The object handed to \<open>logAdminActivity\<close>, stored in the column \<open>new_data\<close>. The
  column \<open>action_description\<close> holds the same object as JSON text and is not repeated.
\<close>

datatype json = JStr string | JNum nat

fun truthy :: "json \<Rightarrow> bool" where
  "truthy (JStr s) = (s \<noteq> [])"
| "truthy (JNum n) = (n \<noteq> 0)"

record activity_row =
  admin_id :: string
  actor_email :: string
  actor_role :: string
  action_type :: string
  target_table :: string
  target_id :: "json option"
  new_data :: "(string \<times> json) list"

text \<open>
  A row of \<open>email_notifications\<close>. The letter's text (\<open>body\<close>) is rendered with the
  browser's locale and the page origin and is left out.
\<close>

record email_row =
  recipient_email :: string
  recipient_name :: string
  subject :: string
  email_type :: string
  email_status :: string
  sent_at :: nat

datatype table = Users | Admins | Papers | ActivityLogs | EmailNotifications

text \<open>One entry per request that leaves the browser.\<close>

datatype call =
    AuthGetUser
  | Select table
  | Insert table
  | Update table
  | Delete table
  | StorageUpload jsstring
  | StorageRemove "jsstring list"

text \<open>
  \<open>faults\<close> says which requests the service refuses: the request issued when \<open>n\<close>
  requests have gone out before it fails with message \<open>e\<close> when \<open>faults n = Some e\<close>,
  and then changes nothing. \<open>clock\<close> is the browser's time in epoch milliseconds and
  \<open>gen_id\<close> the primary key the database gives a new row, both read at the number of
  requests issued so far. \<open>warnings\<close> collects what \<open>console.warn\<close> prints.
\<close>

record world =
  session :: "auth_user option"
  users :: "user_row list"
  admins :: "admin_row list"
  papers :: "paper_row list"
  activity_logs :: "activity_row list"
  email_notifications :: "email_row list"
  storage :: "(jsstring \<times> js_file) list"
  trace :: "call list"
  faults :: "nat \<Rightarrow> string option"
  clock :: "nat \<Rightarrow> nat"
  gen_id :: "nat \<Rightarrow> string"
  warnings :: "string list"

definition send :: "call \<Rightarrow> world \<Rightarrow> string option \<times> world" where
  "send c w = (faults w (length (trace w)), w\<lparr>trace := trace w @ [c]\<rparr>)"

definition now :: "world \<Rightarrow> nat" where
  "now w = clock w (length (trace w))"

definition console_warn :: "string \<Rightarrow> world \<Rightarrow> world" where
  "console_warn msg w = w\<lparr>warnings := warnings w @ [msg]\<rparr>"

definition single_error :: string where
  "single_error = ''JSON object requested, multiple (or no) rows returned''"

text \<open>\<open>.single()\<close>: exactly one row, or an error.\<close>

definition single :: "'a list \<Rightarrow> 'a response" where
  "single rows = (case rows of [r] \<Rightarrow> Inr r | _ \<Rightarrow> Inl single_error)"

text \<open>\<open>supabaseClient.auth.getUser()\<close>, read as \<open>data?.user || null\<close>.\<close>

definition getCurrentUser :: "world \<Rightarrow> auth_user option \<times> world" where
  "getCurrentUser w =
     (case send AuthGetUser w of
        (Some e, w') \<Rightarrow> (None, w')
      | (None, w') \<Rightarrow> (session w', w'))"

text \<open>\<open>from('admins').select('*').eq('auth_id', uid).eq('is_active', true).single()\<close>\<close>

definition admins_select_active :: "string \<Rightarrow> world \<Rightarrow> admin_row response \<times> world" where
  "admins_select_active uid w =
     (case send (Select Admins) w of
        (Some e, w') \<Rightarrow> (Inl e, w')
      | (None, w') \<Rightarrow>
          (single (filter (\<lambda>a. a_auth_id a = uid \<and> is_active a = True) (admins w')), w'))"

text \<open>\<open>from('admins').select('*').eq('auth_id', uid).single()\<close>\<close>

definition admins_select_by_auth_id :: "string \<Rightarrow> world \<Rightarrow> admin_row response \<times> world" where
  "admins_select_by_auth_id uid w =
     (case send (Select Admins) w of
        (Some e, w') \<Rightarrow> (Inl e, w')
      | (None, w') \<Rightarrow> (single (filter (\<lambda>a. a_auth_id a = uid) (admins w')), w'))"

text \<open>\<open>from('users').select('*').eq('auth_id', uid).single()\<close>\<close>

definition users_select_by_auth_id :: "string \<Rightarrow> world \<Rightarrow> user_row response \<times> world" where
  "users_select_by_auth_id uid w =
     (case send (Select Users) w of
        (Some e, w') \<Rightarrow> (Inl e, w')
      | (None, w') \<Rightarrow> (single (filter (\<lambda>u. u_auth_id u = uid) (users w')), w'))"

text \<open>\<open>from('papers').select('*').eq('id', paperId).single()\<close>\<close>

definition papers_select_by_id :: "string \<Rightarrow> world \<Rightarrow> paper_row response \<times> world" where
  "papers_select_by_id paperId w =
     (case send (Select Papers) w of
        (Some e, w') \<Rightarrow> (Inl e, w')
      | (None, w') \<Rightarrow> (single (filter (\<lambda>p. p_id p = paperId) (papers w')), w'))"

text \<open>\<open>from('papers').select('file_url')\<close>\<close>

definition papers_select_file_url :: "world \<Rightarrow> jsstring list response \<times> world" where
  "papers_select_file_url w =
     (case send (Select Papers) w of
        (Some e, w') \<Rightarrow> (Inl e, w')
      | (None, w') \<Rightarrow> (Inr (map file_url (papers w')), w'))"

text \<open>
  \<open>from('papers').insert([row]).select().single()\<close>: the stored row comes back.
\<close>

definition papers_insert :: "paper_input \<Rightarrow> world \<Rightarrow> paper_row response \<times> world" where
  "papers_insert r w =
     (case send (Insert Papers) w of
        (Some e, w') \<Rightarrow> (Inl e, w')
      | (None, w') \<Rightarrow>
          let stored = \<lparr>user_id = user_id r, user_name = user_name r,
                 user_email = user_email r, paper_title = paper_title r,
                 abstract = abstract r, paper_keywords = paper_keywords r,
                 file_name = file_name r, file_url = file_url r,
                 file_size_bytes = file_size_bytes r, status = status r,
                 p_id = gen_id w' (length (trace w')), reviewed_by = None,
                 reviewer_name = None, review_date = None, review_comments = None,
                 created_at = now w'\<rparr>
          in (Inr stored, w'\<lparr>papers := papers w' @ [stored]\<rparr>))"

text \<open>
  \<open>from('papers').update({status, reviewed_by, reviewer_name, review_date,
  review_comments}).eq('id', paperId).select('*, users:user_id (title, full_name,
  email)').single()\<close>: the updated row comes back together with its owner's row, which
  is \<open>null\<close> when no user has that id. Asked for a single object, the service
  changes nothing unless exactly one row matches.
\<close>

record review =
  new_status :: string
  rv_reviewed_by :: string
  rv_reviewer_name :: string
  rv_review_date :: nat
  rv_review_comments :: string

definition apply_review :: "review \<Rightarrow> paper_row \<Rightarrow> paper_row" where
  "apply_review rv p =
     p\<lparr>status := new_status rv, reviewed_by := Some (rv_reviewed_by rv),
       reviewer_name := Some (rv_reviewer_name rv), review_date := Some (rv_review_date rv),
       review_comments := Some (rv_review_comments rv)\<rparr>"

definition papers_update_by_id ::
  "string \<Rightarrow> review \<Rightarrow> world \<Rightarrow> (paper_row \<times> user_row option) response \<times> world" where
  "papers_update_by_id paperId rv w =
     (case send (Update Papers) w of
        (Some e, w') \<Rightarrow> (Inl e, w')
      | (None, w') \<Rightarrow>
          (case filter (\<lambda>p. p_id p = paperId) (papers w') of
             [p] \<Rightarrow>
               (Inr (apply_review rv p, find (\<lambda>u. u_id u = user_id p) (users w')),
                w'\<lparr>papers :=
                     map (\<lambda>q. if p_id q = paperId then apply_review rv q else q) (papers w')\<rparr>)
           | _ \<Rightarrow> (Inl single_error, w')))"

text \<open>\<open>from('papers').delete().eq('id', paperId)\<close>\<close>

definition papers_delete_by_id :: "string \<Rightarrow> world \<Rightarrow> string option \<times> world" where
  "papers_delete_by_id paperId w =
     (case send (Delete Papers) w of
        (Some e, w') \<Rightarrow> (Some e, w')
      | (None, w') \<Rightarrow> (None, w'\<lparr>papers := filter (\<lambda>p. p_id p \<noteq> paperId) (papers w')\<rparr>))"

text \<open>\<open>from('papers').delete().neq('id', x)\<close>: every row whose id differs from \<open>x\<close> goes.\<close>

definition papers_delete_neq_id :: "string \<Rightarrow> world \<Rightarrow> string option \<times> world" where
  "papers_delete_neq_id x w =
     (case send (Delete Papers) w of
        (Some e, w') \<Rightarrow> (Some e, w')
      | (None, w') \<Rightarrow> (None, w'\<lparr>papers := filter (\<lambda>p. \<not> p_id p \<noteq> x) (papers w')\<rparr>))"

text \<open>\<open>from('activity_logs').insert([row])\<close> and \<open>from('email_notifications').insert([row])\<close>\<close>

definition activity_logs_insert :: "activity_row \<Rightarrow> world \<Rightarrow> string option \<times> world" where
  "activity_logs_insert r w =
     (case send (Insert ActivityLogs) w of
        (Some e, w') \<Rightarrow> (Some e, w')
      | (None, w') \<Rightarrow> (None, w'\<lparr>activity_logs := activity_logs w' @ [r]\<rparr>))"

definition email_notifications_insert :: "email_row \<Rightarrow> world \<Rightarrow> string option \<times> world" where
  "email_notifications_insert r w =
     (case send (Insert EmailNotifications) w of
        (Some e, w') \<Rightarrow> (Some e, w')
      | (None, w') \<Rightarrow> (None, w'\<lparr>email_notifications := email_notifications w' @ [r]\<rparr>))"

text \<open>
  \<open>storage.from('papers').upload(path, file, {upsert: false})\<close>: an occupied key is an
  error.
\<close>

definition storage_upload :: "jsstring \<Rightarrow> js_file \<Rightarrow> world \<Rightarrow> string option \<times> world" where
  "storage_upload path f w =
     (case send (StorageUpload path) w of
        (Some e, w') \<Rightarrow> (Some e, w')
      | (None, w') \<Rightarrow>
          if path \<in> set (map fst (storage w')) then (Some ''The resource already exists'', w')
          else (None, w'\<lparr>storage := storage w' @ [(path, f)]\<rparr>))"

text \<open>\<open>storage.from('papers').remove(paths)\<close>: keys that are absent are no error.\<close>

definition storage_remove :: "jsstring list \<Rightarrow> world \<Rightarrow> string option \<times> world" where
  "storage_remove paths w =
     (case send (StorageRemove paths) w of
        (Some e, w') \<Rightarrow> (Some e, w')
      | (None, w') \<Rightarrow> (None, w'\<lparr>storage := filter (\<lambda>(k, f). k \<notin> set paths) (storage w')\<rparr>))"

section \<open>Gateway and authentication module\<close>

text \<open>\<open>isAdmin\<close> of the gateway, exported as \<open>window.auth.isAdmin\<close>.\<close>

definition isAdmin :: "world \<Rightarrow> admin_row option \<times> world" where
  "isAdmin w =
     (case getCurrentUser w of
        (None, w1) \<Rightarrow> (None, w1)
      | (Some user, w1) \<Rightarrow>
          (case admins_select_active (auth_uid user) w1 of
             (Inl e, w2) \<Rightarrow> (None, w2)
           | (Inr data, w2) \<Rightarrow> (Some data, w2)))"

text \<open>
  \<open>isAdmin\<close> of the authentication module: the same steps inside \<open>try\<close>, the
  \<open>catch\<close> answering \<open>null\<close>.
\<close>

definition auth_isAdmin :: "world \<Rightarrow> admin_row option \<times> world" where
  "auth_isAdmin w =
     (case getCurrentUser w of
        (None, w1) \<Rightarrow> (None, w1)
      | (Some user, w1) \<Rightarrow>
          (case admins_select_active (auth_uid user) w1 of
             (Inl e, w2) \<Rightarrow> (None, w2)
           | (Inr data, w2) \<Rightarrow> (Some data, w2)))"

text \<open>\<open>getCurrentUserRecord\<close> answers a row of \<open>users\<close> or, failing that, of \<open>admins\<close>.\<close>

datatype profile = UserProfile user_row | AdminProfile admin_row

fun profile_id :: "profile \<Rightarrow> string" where
  "profile_id (UserProfile u) = u_id u"
| "profile_id (AdminProfile a) = a_id a"

fun profile_full_name :: "profile \<Rightarrow> string" where
  "profile_full_name (UserProfile u) = u_full_name u"
| "profile_full_name (AdminProfile a) = a_full_name a"

fun profile_email :: "profile \<Rightarrow> string" where
  "profile_email (UserProfile u) = u_email u"
| "profile_email (AdminProfile a) = a_email a"

definition getCurrentUserRecord :: "world \<Rightarrow> profile option \<times> world" where
  "getCurrentUserRecord w =
     (case getCurrentUser w of
        (None, w1) \<Rightarrow> (None, w1)
      | (Some user, w1) \<Rightarrow>
          (case users_select_by_auth_id (auth_uid user) w1 of
             (Inr userData, w2) \<Rightarrow> (Some (UserProfile userData), w2)
           | (Inl userError, w2) \<Rightarrow>
               (case admins_select_by_auth_id (auth_uid user) w2 of
                  (Inr adminData, w3) \<Rightarrow> (Some (AdminProfile adminData), w3)
                | (Inl adminError, w3) \<Rightarrow> (None, w3))))"

section \<open>Utility functions\<close>

text \<open>
  \<open>toLowerCase\<close> works code unit by code unit: the letters A to Z; U+0130 (capital
  I with dot above), whose lower-case form is the two code units U+0069 U+0307; and
  U+212A (Kelvin sign), whose lower-case form is the letter k. Every other code unit is
  left as it is: the lower-case form of any other character has as many code units as
  the character and none of them is an ASCII character, so no comparison with an ASCII
  string, as \<open>isValidFileType\<close> makes them, tells the difference.
\<close>

definition toLowerCase_unit :: "nat \<Rightarrow> nat list" where
  "toLowerCase_unit u =
     (if 65 \<le> u \<and> u \<le> 90 then [u + 32]
      else if u = 304 then [105, 775]
      else if u = 8490 then [107]
      else [u])"

definition toLowerCase :: "jsstring \<Rightarrow> jsstring" where
  "toLowerCase s = concat (map toLowerCase_unit s)"

text \<open>\<open>s.lastIndexOf(c)\<close>: the last position of \<open>c\<close>, or \<open>-1\<close>.\<close>

fun lastIndexOf :: "'a list \<Rightarrow> 'a \<Rightarrow> int" where
  "lastIndexOf [] c = - 1"
| "lastIndexOf (x # xs) c =
     (let r = lastIndexOf xs c in if 0 \<le> r then r + 1 else if x = c then 0 else - 1)"

text \<open>\<open>s.substring(start)\<close>: a negative start counts as 0.\<close>

definition substring :: "'a list \<Rightarrow> int \<Rightarrow> 'a list" where
  "substring s start = (if start < 0 then s else drop (nat start) s)"

text \<open>
  The index is taken in the name as given, the cut is made in the lower-cased name, as
  the source has it.
\<close>

definition dot :: nat where
  "dot = of_char CHR ''.''"

definition isValidFileType :: "jsstring \<Rightarrow> jsstring list \<Rightarrow> bool" where
  "isValidFileType fileName allowedTypes =
     (let extension = substring (toLowerCase fileName) (lastIndexOf fileName dot)
      in extension \<in> set allowedTypes)"

definition isValidFileSize :: "nat \<Rightarrow> nat \<Rightarrow> bool" where
  "isValidFileSize fileSize maxSizeMB =
     (let maxBytes = maxSizeMB * 1024 * 1024 in fileSize \<le> maxBytes)"

text \<open>A non-negative integer inside a template string: its decimal digits.\<close>

fun String_nat :: "nat \<Rightarrow> string" where
  "String_nat n =
     (if n < 10 then [char_of (48 + n)]
      else String_nat (n div 10) @ [char_of (48 + n mod 10)])"

declare String_nat.simps [simp del]



section \<open>Paper submission module\<close>

definition uploadPaper :: "js_file \<Rightarrow> metadata \<Rightarrow> world \<Rightarrow> paper_row result \<times> world" where
  "uploadPaper f md w =
     (case getCurrentUser w of
        (None, w1) \<Rightarrow> (Failure ''Please log in to submit a paper'', w1)
      | (Some user, w1) \<Rightarrow>
     (case getCurrentUserRecord w1 of
        (None, w2) \<Rightarrow>
          (Failure ''User record not found. Please complete registration first.'', w2)
      | (Some userRecord, w2) \<Rightarrow>
          if \<not> isValidFileType (f_name f) [units ''.pdf'', units ''.doc'', units ''.docx''] then
            (Failure ''Invalid file type. Please upload PDF, DOC, or DOCX files only.'', w2)
          else if \<not> isValidFileSize (f_size f) 10 then
            (Failure ''File size exceeds 10 MB limit'', w2)
          else
            let fileName = units (profile_id userRecord) @ units ''/''
                             @ units (String_nat (now w2)) @ units ''_'' @ f_name f
            in (case storage_upload fileName f w2 of
                  (Some uploadError, w3) \<Rightarrow> (Failure uploadError, w3)
                | (None, w3) \<Rightarrow>
                    (case papers_insert
                            \<lparr>user_id = profile_id userRecord,
                             user_name = profile_full_name userRecord,
                             user_email = profile_email userRecord,
                             paper_title = (case m_title md of None \<Rightarrow> [] | Some t \<Rightarrow> t),
                             abstract = (case m_abstract md of None \<Rightarrow> [] | Some a \<Rightarrow> a),
                             paper_keywords = (case m_keywords md of None \<Rightarrow> [] | Some k \<Rightarrow> k),
                             file_name = f_name f,
                             file_url = fileName,
                             file_size_bytes = f_size f,
                             status = ''pending''\<rparr> w3 of
                       (Inl paperError, w4) \<Rightarrow> (Failure paperError, w4)
                     | (Inr paperData, w4) \<Rightarrow> (Success paperData, w4)))))"

definition not_pending_error :: string where
  "not_pending_error = ''Cannot delete paper that is under review or has been reviewed''"

definition deletePaper :: "string \<Rightarrow> world \<Rightarrow> unit result \<times> world" where
  "deletePaper paperId w =
     (case papers_select_by_id paperId w of
        (Inl fetchError, w1) \<Rightarrow> (Failure fetchError, w1)
      | (Inr paper, w1) \<Rightarrow>
          if status paper \<noteq> ''pending'' then (Failure not_pending_error, w1)
          else
            (case storage_remove [file_url paper] w1 of
               (storageError, w2) \<Rightarrow>
                 let w3 = (case storageError of
                             Some e \<Rightarrow>
                               console_warn (''Warning: Could not delete file from storage: '' @ e) w2
                           | None \<Rightarrow> w2)
                 in (case papers_delete_by_id paperId w3 of
                       (Some deleteError, w4) \<Rightarrow> (Failure deleteError, w4)
                     | (None, w4) \<Rightarrow> (Success (), w4))))"

section \<open>Admin panel module\<close>

definition unauthorized_error :: string where
  "unauthorized_error = ''Unauthorized: Admin access required''"


definition logAdminActivity :: "string \<Rightarrow> (string \<times> json) list \<Rightarrow> world \<Rightarrow> world" where
  "logAdminActivity actionType actionData w =
     (case isAdmin w of
        (None, w1) \<Rightarrow> w1
      | (Some admin, w1) \<Rightarrow>
          snd (activity_logs_insert
                 \<lparr>admin_id = a_id admin,
                  actor_email = a_email admin,
                  actor_role = a_role admin,
                  action_type = actionType,
                  target_table = ''papers'',
                  target_id = (case map_of actionData ''paper_id'' of
                                 None \<Rightarrow> None
                               | Some v \<Rightarrow> if truthy v then Some v else None),
                  new_data = actionData\<rparr> w1))"


definition adminDeletePaper :: "string \<Rightarrow> world \<Rightarrow> unit result \<times> world" where
  "adminDeletePaper paperId w =
     (case isAdmin w of
        (None, w1) \<Rightarrow> (Failure unauthorized_error, w1)
      | (Some admin, w1) \<Rightarrow>
          (case papers_select_by_id paperId w1 of
             (Inl fetchError, w2) \<Rightarrow> (Failure fetchError, w2)
           | (Inr paper, w2) \<Rightarrow>
               let w3 = snd (storage_remove [file_url paper] w2)
               in (case papers_delete_by_id paperId w3 of
                     (Some deleteError, w4) \<Rightarrow> (Failure deleteError, w4)
                   | (None, w4) \<Rightarrow> (Success (), w4))))"

definition nil_uuid :: string where
  "nil_uuid = ''00000000-0000-0000-0000-000000000000''"

definition deleteAllPapers :: "world \<Rightarrow> nat result \<times> world" where
  "deleteAllPapers w =
     (case isAdmin w of
        (None, w1) \<Rightarrow> (Failure unauthorized_error, w1)
      | (Some admin, w1) \<Rightarrow>
          (case papers_select_file_url w1 of
             (Inl fetchError, w2) \<Rightarrow> (Failure fetchError, w2)
           | (Inr ps, w2) \<Rightarrow>
               let w3 = (if length ps > 0 then
                           let fileUrls = filter (\<lambda>url. url \<noteq> []) ps
                           in if length fileUrls > 0 then snd (storage_remove fileUrls w2) else w2
                         else w2)
               in (case papers_delete_neq_id nil_uuid w3 of
                     (Some deleteError, w4) \<Rightarrow> (Failure deleteError, w4)
                   | (None, w4) \<Rightarrow>
                       let w5 = logAdminActivity ''delete_all_papers''
                                  [(''count'', JNum (length ps))] w4
                       in (Success (length ps), w5))))"

section \<open>Registration module\<close>

text \<open>
  The category normalisation of the registration form's submit handler; the checked
  radio button's value is absent when none is checked.
\<close>

definition startsWith :: "string \<Rightarrow> string \<Rightarrow> bool" where
  "startsWith s pre = (take (length pre) s = pre)"

definition normalizedCategory :: "string option \<Rightarrow> string option" where
  "normalizedCategory rawCategory =
     (case rawCategory of
        None \<Rightarrow> None
      | Some c \<Rightarrow>
          if startsWith c ''listener_'' then Some ''listener''
          else if c = ''scholar'' then Some ''student''
          else if c = ''expert'' then Some ''scientist''
          else Some c)"

section \<open>Reading results\<close>

fun is_failure :: "'a result \<Rightarrow> bool" where
  "is_failure (Failure e) = True"
| "is_failure (Success x) = False"

section \<open>Notions used in the statements\<close>

text \<open>
  The paths that \<open>deleteAllPapers\<close> hands to the bucket: the non-empty \<open>file_url\<close>
  columns, in table order.
\<close>

definition stored_paths :: "world \<Rightarrow> jsstring list" where
  "stored_paths w = filter (\<lambda>url. url \<noteq> []) (map file_url (papers w))"


text \<open>
  The extension of a file name as the specification speaks of it: the text after the
  last dot, compared without regard to case; a name without a dot has none. The code's
  \<open>isValidFileType\<close> is compared with it below. \<open>stem\<close> is the part of the name before
  its last dot.
\<close>

definition file_extension :: "jsstring \<Rightarrow> jsstring option" where
  "file_extension name =
     (if dot \<in> set name
      then Some (toLowerCase (rev (takeWhile (\<lambda>c. c \<noteq> dot) (rev name))))
      else None)"

definition allowed_extensions :: "jsstring option set" where
  "allowed_extensions = {Some (units ''pdf''), Some (units ''doc''), Some (units ''docx'')}"

text \<open>The storage key of an upload: owner id, slash, time in milliseconds, underscore, name.\<close>

definition storage_path :: "string \<Rightarrow> nat \<Rightarrow> jsstring \<Rightarrow> jsstring" where
  "storage_path owner t name =
     units owner @ units ''/'' @ units (String_nat t) @ units ''_'' @ name"

definition stem :: "jsstring \<Rightarrow> jsstring" where
  "stem name = take (nat (lastIndexOf name dot)) name"

definition dotted_I :: nat where
  "dotted_I = 304"

text \<open>
  The read-only requests that resolve the caller, and the two validation messages of
  \<open>uploadPaper\<close>.
\<close>

definition lookups :: "call set" where
  "lookups = {AuthGetUser, Select Users, Select Admins}"

definition invalid_type_error :: string where
  "invalid_type_error = ''Invalid file type. Please upload PDF, DOC, or DOCX files only.''"

definition too_large_error :: string where
  "too_large_error = ''File size exceeds 10 MB limit''"

section \<open>Concrete worlds\<close>

definition demo_user :: user_row where
  "demo_user = \<lparr>u_id = ''u1'', u_auth_id = ''auth-ada'', u_title = ''Dr'',
     u_full_name = ''Ada'', u_email = ''ada@example.org''\<rparr>"

definition demo_admin :: admin_row where
  "demo_admin = \<lparr>a_id = ''a1'', a_auth_id = ''auth-grace'', a_full_name = ''Grace'',
     a_email = ''grace@example.org'', a_role = ''super_admin'', is_active = True\<rparr>"

definition demo_file :: js_file where
  "demo_file = \<lparr>f_name = units ''paper.pdf'', f_size = 2097152\<rparr>"

definition demo_paper :: paper_row where
  "demo_paper = \<lparr>user_id = ''u1'', user_name = ''Ada'', user_email = ''ada@example.org'',
     paper_title = ''X'', abstract = [], paper_keywords = [],
     file_name = units ''paper.pdf'',
     file_url = units ''u1/1699999999999_paper.pdf'', file_size_bytes = 2097152,
     status = ''pending'', p_id = ''p1'', reviewed_by = None, reviewer_name = None,
     review_date = None, review_comments = None, created_at = 1699999999999\<rparr>"

definition demo_world :: world where
  "demo_world = \<lparr>session = Some \<lparr>auth_uid = ''auth-ada'', auth_email = ''ada@example.org''\<rparr>,
     users = [demo_user], admins = [demo_admin], papers = [demo_paper],
     activity_logs = [], email_notifications = [],
     storage = [(units ''u1/1699999999999_paper.pdf'', demo_file)],
     trace = [], faults = (\<lambda>n. None), clock = (\<lambda>n. 1700000000000 + n),
     gen_id = (\<lambda>n. ''p'' @ String_nat (n + 2)), warnings = []\<rparr>"

definition reviewed_world :: world where
  "reviewed_world = demo_world\<lparr>papers := [demo_paper\<lparr>status := ''accepted''\<rparr>]\<rparr>"

definition admin_world :: world where
  "admin_world =
     demo_world\<lparr>session := Some \<lparr>auth_uid = ''auth-grace'', auth_email = ''grace@example.org''\<rparr>\<rparr>"

definition storage_down_world :: world where
  "storage_down_world =
     demo_world\<lparr>faults := (\<lambda>n. if n = 1 then Some ''Bucket not found'' else None)\<rparr>"

definition admin_storage_down_world :: world where
  "admin_storage_down_world =
     admin_world\<lparr>papers := [demo_paper\<lparr>status := ''accepted''\<rparr>],
                 faults := (\<lambda>n. if n = 3 then Some ''Bucket not found'' else None)\<rparr>"

definition deactivated_world :: world where
  "deactivated_world = admin_world\<lparr>admins := [demo_admin\<lparr>is_active := False\<rparr>]\<rparr>"

definition demo_metadata :: metadata where
  "demo_metadata = \<lparr>m_title = Some ''X'', m_abstract = None, m_keywords = None\<rparr>"

definition big_file :: js_file where
  "big_file = \<lparr>f_name = units ''big.pdf'', f_size = 11534336\<rparr>"

definition dotted_I_file :: js_file where
  "dotted_I_file = \<lparr>f_name = dotted_I # units ''.pdf'', f_size = 2097152\<rparr>"

definition text_file :: js_file where
  "text_file = \<lparr>f_name = units ''notes.txt'', f_size = 1024\<rparr>"

definition five_papers :: "paper_row list" where
  "five_papers =
     [demo_paper,
      demo_paper\<lparr>p_id := ''p2'', file_url := units ''u1/1700000000002_b.pdf''\<rparr>,
      demo_paper\<lparr>p_id := ''p3'', file_url := units ''u1/1700000000003_c.pdf''\<rparr>,
      demo_paper\<lparr>p_id := ''p4'', file_url := units ''u1/1700000000004_d.doc''\<rparr>,
      demo_paper\<lparr>p_id := ''p5'', file_url := units ''u1/1700000000005_e.docx''\<rparr>]"

definition five_papers_world :: world where
  "five_papers_world =
     admin_world\<lparr>papers := five_papers,
                 storage := map (\<lambda>p. (file_url p, demo_file)) five_papers\<rparr>"





section \<open>Helper facts\<close>

lemmas backend_defs = send_def now_def console_warn_def single_def getCurrentUser_def
  admins_select_active_def admins_select_by_auth_id_def users_select_by_auth_id_def
  papers_select_by_id_def papers_select_file_url_def papers_insert_def papers_update_by_id_def
  papers_delete_by_id_def papers_delete_neq_id_def activity_logs_insert_def
  email_notifications_insert_def storage_upload_def storage_remove_def


lemma filter_key_unique:
  "distinct (map f xs) \<Longrightarrow> x \<in> set xs \<Longrightarrow> filter (\<lambda>y. f y = f x) xs = [x]"
proof (induction xs)
  case Nil
  then show ?case by simp
next
  case (Cons a xs)
  show ?case
  proof (cases "a = x")
    case True
    from Cons.prems True have "f x \<notin> f ` set xs"
      by simp
    then have "\<forall>y\<in>set xs. f y \<noteq> f x"
      by (metis imageI)
    then have "filter (\<lambda>y. f y = f x) xs = []"
      by (simp add: filter_empty_conv)
    with True show ?thesis by simp
  next
    case False
    with Cons.prems have xin: "x \<in> set xs" and "f a \<noteq> f x"
      by auto
    with Cons show ?thesis by simp
  qed
qed

lemma filter_singleton_mem: "filter P xs = [a] \<Longrightarrow> a \<in> set xs \<and> P a"
proof -
  assume "filter P xs = [a]"
  then have "a \<in> set (filter P xs)" by simp
  then show ?thesis by simp
qed

lemma filter_le_one:
  assumes "length (filter P xs) \<le> 1" and "a \<in> set xs" and "P a"
  shows "filter P xs = [a]"
proof -
  from assms(2,3) have "a \<in> set (filter P xs)" by simp
  with assms(1) show ?thesis
    by (cases "filter P xs") (auto simp: Suc_le_eq)
qed

lemma isAdmin_SomeD:
  assumes "isAdmin w = (Some a, w')"
  shows "\<exists>user. session w = Some user
           \<and> faults w (length (trace w)) = None
           \<and> faults w (Suc (length (trace w))) = None
           \<and> filter (\<lambda>r. a_auth_id r = auth_uid user \<and> is_active r = True) (admins w) = [a]
           \<and> w' = w\<lparr>trace := trace w @ [AuthGetUser, Select Admins]\<rparr>"
  using assms
  by (auto simp: isAdmin_def backend_defs split: option.splits list.splits if_splits)

lemma isAdmin_SomeI:
  assumes "session w = Some user"
    and "faults w (length (trace w)) = None"
    and "faults w (Suc (length (trace w))) = None"
    and "filter (\<lambda>r. a_auth_id r = auth_uid user \<and> is_active r = True) (admins w) = [a]"
  shows "isAdmin w = (Some a, w\<lparr>trace := trace w @ [AuthGetUser, Select Admins]\<rparr>)"
  using assms by (simp add: isAdmin_def backend_defs)

lemma auth_isAdmin_eq: "auth_isAdmin w = isAdmin w"
  by (simp add: auth_isAdmin_def isAdmin_def)

lemma isAdmin_Some_fstD:
  assumes "fst (isAdmin w) = Some a"
  shows "\<exists>user. session w = Some user
           \<and> faults w (length (trace w)) = None
           \<and> faults w (Suc (length (trace w))) = None
           \<and> filter (\<lambda>r. a_auth_id r = auth_uid user \<and> is_active r = True) (admins w) = [a]
           \<and> isAdmin w = (Some a, w\<lparr>trace := trace w @ [AuthGetUser, Select Admins]\<rparr>)"
proof -
  from assms have eq: "isAdmin w = (Some a, snd (isAdmin w))"
    by (metis prod.collapse)
  from isAdmin_SomeD [OF eq] eq show ?thesis by auto
qed

lemma isAdmin_sound:
  assumes "fst (isAdmin w) = Some a"
  shows "\<exists>user. session w = Some user \<and> a \<in> set (admins w)
           \<and> a_auth_id a = auth_uid user \<and> is_active a = True"
proof -
  from isAdmin_Some_fstD [OF assms] obtain user where
    u: "session w = Some user"
    and f: "filter (\<lambda>r. a_auth_id r = auth_uid user \<and> is_active r = True) (admins w) = [a]"
    by blast
  from filter_singleton_mem [OF f] u show ?thesis by auto
qed

lemma isAdmin_no_session: "session w = None \<Longrightarrow> fst (isAdmin w) = None"
  by (simp add: isAdmin_def backend_defs split: option.splits)

lemma isAdmin_inactive:
  assumes "session w = Some user"
    and "\<forall>a\<in>set (admins w). a_auth_id a = auth_uid user \<longrightarrow> is_active a = False"
  shows "fst (isAdmin w) = None"
proof (cases "fst (isAdmin w)")
  case None
  then show ?thesis .
next
  case (Some a)
  from isAdmin_sound [OF Some] assms show ?thesis by auto
qed


lemma Suc_add_numerals:
  "n + 3 = Suc (Suc (Suc n))" "n + 4 = Suc (Suc (Suc (Suc n)))"
  "n + 5 = Suc (Suc (Suc (Suc (Suc n))))" "n + 6 = Suc (Suc (Suc (Suc (Suc (Suc n)))))"
  "n + 7 = Suc (Suc (Suc (Suc (Suc (Suc (Suc n))))))"
  by simp_all









lemma lastIndexOf_absent: "c \<notin> set s \<Longrightarrow> lastIndexOf s c = - 1"
  by (induction s) (auto simp: Let_def)

lemma lastIndexOf_present: "c \<in> set s \<Longrightarrow> 0 \<le> lastIndexOf s c"
  by (induction s) (auto simp: Let_def)

lemma drop_lastIndexOf:
  "c \<in> set s \<Longrightarrow>
   drop (nat (lastIndexOf s c)) s = c # rev (takeWhile (\<lambda>x. x \<noteq> c) (rev s))"
proof (induction s)
  case Nil
  then show ?case by simp
next
  case (Cons x xs)
  show ?case
  proof (cases "c \<in> set xs")
    case True
    then have r: "0 \<le> lastIndexOf xs c" by (rule lastIndexOf_present)
    then have "nat (lastIndexOf xs c + 1) = Suc (nat (lastIndexOf xs c))" by simp
    moreover from True have "takeWhile (\<lambda>x. x \<noteq> c) (rev xs @ [x]) = takeWhile (\<lambda>x. x \<noteq> c) (rev xs)"
      by (intro takeWhile_append1 [of c]) auto
    ultimately show ?thesis
      using r Cons.IH [OF True] by (simp add: Let_def)
  next
    case False
    with Cons.prems have xc: "x = c" by simp
    from False have "takeWhile (\<lambda>x. x \<noteq> c) (rev xs @ [c]) = rev xs"
      by (subst takeWhile_append2) auto
    with False xc show ?thesis
      by (simp add: Let_def lastIndexOf_absent)
  qed
qed

lemma lastIndexOf_le: "c \<in> set s \<Longrightarrow> nat (lastIndexOf s c) < length s"
proof -
  assume c: "c \<in> set s"
  have "drop (nat (lastIndexOf s c)) s \<noteq> []"
    by (simp add: drop_lastIndexOf [OF c])
  then show ?thesis by simp
qed

lemma toLowerCase_append: "toLowerCase (xs @ ys) = toLowerCase xs @ toLowerCase ys"
  by (simp add: toLowerCase_def)

lemma toLowerCase_Cons: "toLowerCase (x # xs) = toLowerCase_unit x @ toLowerCase xs"
  by (simp add: toLowerCase_def)

lemma toLowerCase_dot: "toLowerCase_unit dot = [dot]"
  by (simp add: toLowerCase_unit_def dot_def)

lemma dot_in_toLowerCase_unit: "dot \<in> set (toLowerCase_unit u) \<longleftrightarrow> u = dot"
  by (auto simp: toLowerCase_unit_def dot_def)

lemma toLowerCase_unit_nonempty: "toLowerCase_unit u \<noteq> []"
  by (simp add: toLowerCase_unit_def)

lemma length_toLowerCase_same:
  "dotted_I \<notin> set s \<Longrightarrow> length (toLowerCase s) = length s"
  by (induction s) (auto simp: toLowerCase_def toLowerCase_unit_def dotted_I_def)

lemma length_toLowerCase_longer:
  "dotted_I \<in> set s \<Longrightarrow> length s < length (toLowerCase s)"
proof (induction s)
  case Nil
  then show ?case by simp
next
  case (Cons x xs)
  have ge: "length xs \<le> length (toLowerCase xs)"
    using length_toLowerCase_same [of xs] Cons.IH by (cases "dotted_I \<in> set xs") auto
  show ?case
  proof (cases "x = dotted_I")
    case True
    with ge show ?thesis
      by (simp add: toLowerCase_Cons toLowerCase_unit_def dotted_I_def)
  next
    case False
    with Cons.prems have "dotted_I \<in> set xs" by simp
    from Cons.IH [OF this] show ?thesis
      using toLowerCase_unit_nonempty [of x]
      by (cases "toLowerCase_unit x") (auto simp: toLowerCase_Cons)
  qed
qed

lemma name_split:
  assumes "dot \<in> set name"
  shows "name = stem name @ dot # rev (takeWhile (\<lambda>c. c \<noteq> dot) (rev name))"
    and "length (stem name) = nat (lastIndexOf name dot)"
proof -
  have "name = take (nat (lastIndexOf name dot)) name @ drop (nat (lastIndexOf name dot)) name"
    by simp
  then show "name = stem name @ dot # rev (takeWhile (\<lambda>c. c \<noteq> dot) (rev name))"
    by (simp add: stem_def drop_lastIndexOf [OF assms])
  from lastIndexOf_le [OF assms] show "length (stem name) = nat (lastIndexOf name dot)"
    by (simp add: stem_def)
qed

lemma allowed_dot_first:
  assumes "z \<in> {units ''.pdf'', units ''.doc'', units ''.docx''}"
  shows "dot \<notin> set (tl z)" and "z \<noteq> []" and "hd z = dot"
  using assms by (auto simp: units_def dot_def)

lemma allowed_strip_dot:
  "dot # e \<in> {units ''.pdf'', units ''.doc'', units ''.docx''}
   \<longleftrightarrow> Some e \<in> allowed_extensions"
  by (auto simp: units_def dot_def allowed_extensions_def)

lemma isValidFileType_iff:
  "isValidFileType name [units ''.pdf'', units ''.doc'', units ''.docx'']
   \<longleftrightarrow> file_extension name \<in> allowed_extensions \<and> dotted_I \<notin> set (stem name)"
proof (cases "dot \<in> set name")
  case False
  then have idx: "lastIndexOf name dot = - 1" by (rule lastIndexOf_absent)
  have "toLowerCase name \<notin> {units ''.pdf'', units ''.doc'', units ''.docx''}"
  proof
    assume a: "toLowerCase name \<in> {units ''.pdf'', units ''.doc'', units ''.docx''}"
    from allowed_dot_first [OF a] have ne: "toLowerCase name \<noteq> []" and h: "hd (toLowerCase name) = dot"
      by simp_all
    from ne obtain x xs where n: "name = x # xs"
      by (cases name) (auto simp: toLowerCase_def)
    from h have "dot \<in> set (toLowerCase_unit x)"
      using toLowerCase_unit_nonempty [of x]
      by (cases "toLowerCase_unit x") (auto simp: n toLowerCase_Cons)
    then have "x = dot" by (simp add: dot_in_toLowerCase_unit)
    with False n show False by simp
  qed
  then show ?thesis
    using False idx
    by (simp add: isValidFileType_def substring_def file_extension_def allowed_extensions_def
        Let_def)
next
  case True
  let ?ext = "rev (takeWhile (\<lambda>c. c \<noteq> dot) (rev name))"
  let ?k = "nat (lastIndexOf name dot)"
  from name_split [OF True] have split: "name = stem name @ dot # ?ext"
    and len: "length (stem name) = ?k" by simp_all
  from lastIndexOf_present [OF True] have nn: "\<not> lastIndexOf name dot < 0" by simp
  have low: "toLowerCase name = toLowerCase (stem name) @ dot # toLowerCase ?ext"
    by (subst split) (simp add: toLowerCase_append toLowerCase_Cons toLowerCase_dot)
  show ?thesis
  proof (cases "dotted_I \<in> set (stem name)")
    case False
    then have "length (toLowerCase (stem name)) = ?k"
      using length_toLowerCase_same [of "stem name"] len by simp
    then have "drop ?k (toLowerCase name) = dot # toLowerCase ?ext"
      by (simp add: low)
    with False True nn allowed_strip_dot [of "toLowerCase ?ext"] show ?thesis
      by (simp add: isValidFileType_def substring_def file_extension_def Let_def)
  next
    case I: True
    then have "?k < length (toLowerCase (stem name))"
      using length_toLowerCase_longer [of "stem name"] len by simp
    then obtain y ys where d: "drop ?k (toLowerCase (stem name)) = y # ys"
      by (cases "drop ?k (toLowerCase (stem name))") auto
    then have dr: "drop ?k (toLowerCase name) = y # ys @ dot # toLowerCase ?ext"
      using \<open>?k < length (toLowerCase (stem name))\<close> by (simp add: low)
    have "drop ?k (toLowerCase name) \<notin> {units ''.pdf'', units ''.doc'', units ''.docx''}"
    proof
      assume a: "drop ?k (toLowerCase name) \<in> {units ''.pdf'', units ''.doc'', units ''.docx''}"
      from allowed_dot_first(1) [OF a] show False
        by (simp add: dr)
    qed
    with I nn show ?thesis
      by (simp add: isValidFileType_def substring_def Let_def)
  qed
qed

lemma getCurrentUser_world: "snd (getCurrentUser w) = w\<lparr>trace := trace w @ [AuthGetUser]\<rparr>"
  by (simp add: getCurrentUser_def send_def split: option.splits)

lemma getCurrentUserRecord_world:
  "\<exists>cs. snd (getCurrentUserRecord w) = w\<lparr>trace := trace w @ cs\<rparr> \<and> set cs \<subseteq> lookups"
proof -
  have "snd (getCurrentUserRecord w) = w\<lparr>trace := trace w @ [AuthGetUser]\<rparr>
      \<or> snd (getCurrentUserRecord w) = w\<lparr>trace := trace w @ [AuthGetUser, Select Users]\<rparr>
      \<or> snd (getCurrentUserRecord w) = w\<lparr>trace := trace w @ [AuthGetUser, Select Users, Select Admins]\<rparr>"
    by (auto simp: getCurrentUserRecord_def backend_defs
        split: option.splits prod.splits sum.splits list.splits)
  then consider
      (a) "snd (getCurrentUserRecord w) = w\<lparr>trace := trace w @ [AuthGetUser]\<rparr>"
    | (b) "snd (getCurrentUserRecord w) = w\<lparr>trace := trace w @ [AuthGetUser, Select Users]\<rparr>"
    | (c) "snd (getCurrentUserRecord w)
             = w\<lparr>trace := trace w @ [AuthGetUser, Select Users, Select Admins]\<rparr>"
    by blast
  then show ?thesis
  proof cases
    case a
    then show ?thesis
      by (intro exI [of _ "[AuthGetUser]"]) (simp add: lookups_def)
  next
    case b
    then show ?thesis
      by (intro exI [of _ "[AuthGetUser, Select Users]"]) (simp add: lookups_def)
  next
    case c
    then show ?thesis
      by (intro exI [of _ "[AuthGetUser, Select Users, Select Admins]"]) (simp add: lookups_def)
  qed
qed

lemma uploadPaper_rejects:
  assumes "\<not> isValidFileType (f_name f) [units ''.pdf'', units ''.doc'', units ''.docx''] \<or> \<not> isValidFileSize (f_size f) 10"
  shows "is_failure (fst (uploadPaper f md w))
       \<and> (\<exists>cs. snd (uploadPaper f md w) = w\<lparr>trace := trace w @ AuthGetUser # cs\<rparr>
              \<and> set cs \<subseteq> lookups)"
proof (cases "getCurrentUser w")
  case (Pair r w1)
  then have w1: "w1 = w\<lparr>trace := trace w @ [AuthGetUser]\<rparr>"
    using getCurrentUser_world [of w] by simp
  show ?thesis
  proof (cases r)
    case None
    with Pair w1 show ?thesis
      by (auto simp: uploadPaper_def intro!: exI [of _ "[]"])
  next
    case (Some user)
    obtain r2 w2 where rec: "getCurrentUserRecord w1 = (r2, w2)"
      by (cases "getCurrentUserRecord w1") auto
    from getCurrentUserRecord_world [of w1] rec obtain cs where
      w2: "w2 = w1\<lparr>trace := trace w1 @ cs\<rparr>" and cs: "set cs \<subseteq> lookups"
      by auto
    have "w2 = w\<lparr>trace := trace w @ AuthGetUser # cs\<rparr>"
      by (simp add: w2 w1)
    with assms Pair Some rec cs show ?thesis
      by (cases r2) (auto simp: uploadPaper_def)
  qed
qed

lemma startsWith_iff: "startsWith s pre \<longleftrightarrow> (\<exists>rest. s = pre @ rest)"
  unfolding startsWith_def
  by (metis append_eq_conv_conj append_take_drop_id)

section \<open>Owner-initiated deletion\<close>

text \<open>
  C1. A paper whose status is not \<open>pending\<close> cannot be deleted by its owner:
  \<open>deletePaper\<close> answers a failure, the \<open>papers\<close> table and the bucket are as before,
  and the only request issued is the fetch of the paper. When that fetch is answered
  (the paper's id being the table's primary key), the failure is the invalid-state
  message.
\<close>

theorem deletePaper_not_pending:
  assumes "p \<in> set (papers w)" and "p_id p = paperId" and "status p \<noteq> ''pending''"
  shows "is_failure (fst (deletePaper paperId w))
       \<and> papers (snd (deletePaper paperId w)) = papers w
       \<and> storage (snd (deletePaper paperId w)) = storage w
       \<and> trace (snd (deletePaper paperId w)) = trace w @ [Select Papers]
       \<and> (faults w (length (trace w)) = None \<and> distinct (map p_id (papers w)) \<longrightarrow>
            fst (deletePaper paperId w) = Failure not_pending_error)"
proof -
  let ?hits = "filter (\<lambda>q. p_id q = paperId) (papers w)"
  from assms(1,2) have mem: "p \<in> set ?hits" by simp
  have only: "a = p" if "?hits = [a]" for a
    using mem that by simp
  have unchanged: "is_failure (fst (deletePaper paperId w))
       \<and> papers (snd (deletePaper paperId w)) = papers w
       \<and> storage (snd (deletePaper paperId w)) = storage w
       \<and> trace (snd (deletePaper paperId w)) = trace w @ [Select Papers]"
    using only assms(3)
    by (auto simp: deletePaper_def papers_select_by_id_def send_def single_def
        split: option.splits list.splits)
  have msg: "fst (deletePaper paperId w) = Failure not_pending_error"
    if "faults w (length (trace w)) = None" "distinct (map p_id (papers w))"
  proof -
    from that(2) assms(1,2) have "?hits = [p]"
      using filter_key_unique [of p_id "papers w" p] by simp
    with that(1) assms(3) show ?thesis
      by (simp add: deletePaper_def papers_select_by_id_def send_def single_def)
  qed
  from unchanged msg show ?thesis by blast
qed

theorem deletePaper_not_pending_witness:
  "demo_paper\<lparr>status := ''accepted''\<rparr> \<in> set (papers reviewed_world)
   \<and> status (demo_paper\<lparr>status := ''accepted''\<rparr>) \<noteq> ''pending''
   \<and> distinct (map p_id (papers reviewed_world))
   \<and> faults reviewed_world (length (trace reviewed_world)) = None
   \<and> fst (deletePaper ''p1'' reviewed_world) = Failure not_pending_error
   \<and> papers (snd (deletePaper ''p1'' reviewed_world)) = [demo_paper\<lparr>status := ''accepted''\<rparr>]
   \<and> storage (snd (deletePaper ''p1'' reviewed_world))
       = [(units ''u1/1699999999999_paper.pdf'', demo_file)]"
proof -
  have h1: "demo_paper\<lparr>status := ''accepted''\<rparr> \<in> set (papers reviewed_world)"
    by (simp add: reviewed_world_def demo_world_def)
  have h2: "p_id (demo_paper\<lparr>status := ''accepted''\<rparr>) = ''p1''"
    by (simp add: demo_paper_def)
  have h3: "status (demo_paper\<lparr>status := ''accepted''\<rparr>) \<noteq> ''pending''"
    by simp
  have h4: "distinct (map p_id (papers reviewed_world))"
    by (simp add: reviewed_world_def demo_world_def)
  have h5: "faults reviewed_world (length (trace reviewed_world)) = None"
    by (simp add: reviewed_world_def demo_world_def)
  from deletePaper_not_pending [OF h1 h2 h3] h1 h3 h4 h5
  show ?thesis by (simp add: reviewed_world_def demo_world_def)
qed

text \<open>
  C5. A \<open>pending\<close> paper is deleted by its owner: when the fetch and the delete request
  are answered, \<open>deletePaper\<close> succeeds and the row is gone. The removal of the stored
  file is best effort: when the bucket answers, the object under the paper's path is
  gone too; when the bucket refuses, a warning is printed, the bucket is as before, and
  the row is deleted all the same.
\<close>

theorem deletePaper_pending:
  assumes "p \<in> set (papers w)" and "p_id p = paperId" and "status p = ''pending''"
    and "distinct (map p_id (papers w))"
    and "faults w (length (trace w)) = None"
    and "faults w (length (trace w) + 2) = None"
  shows "fst (deletePaper paperId w) = Success ()
       \<and> papers (snd (deletePaper paperId w)) = filter (\<lambda>q. p_id q \<noteq> paperId) (papers w)
       \<and> p \<notin> set (papers (snd (deletePaper paperId w)))
       \<and> trace (snd (deletePaper paperId w))
           = trace w @ [Select Papers, StorageRemove [file_url p], Delete Papers]
       \<and> (case faults w (length (trace w) + 1) of
             None \<Rightarrow>
               storage (snd (deletePaper paperId w))
                 = filter (\<lambda>(k, f). k \<noteq> file_url p) (storage w)
               \<and> warnings (snd (deletePaper paperId w)) = warnings w
           | Some e \<Rightarrow>
               storage (snd (deletePaper paperId w)) = storage w
               \<and> warnings (snd (deletePaper paperId w))
                   = warnings w @ [''Warning: Could not delete file from storage: '' @ e])"
proof -
  from assms have sel: "filter (\<lambda>q. p_id q = paperId) (papers w) = [p]"
    using filter_key_unique [of p_id "papers w" p] by simp
  show ?thesis
    using assms(2,3,5,6) sel
    by (simp add: deletePaper_def backend_defs Let_def split: option.splits)
qed

theorem deletePaper_pending_witness:
  "demo_paper \<in> set (papers storage_down_world)
   \<and> status demo_paper = ''pending''
   \<and> faults storage_down_world (length (trace storage_down_world) + 1) = Some ''Bucket not found''
   \<and> fst (deletePaper ''p1'' storage_down_world) = Success ()
   \<and> papers (snd (deletePaper ''p1'' storage_down_world)) = []
   \<and> storage (snd (deletePaper ''p1'' storage_down_world)) = storage storage_down_world
   \<and> warnings (snd (deletePaper ''p1'' storage_down_world))
       = [''Warning: Could not delete file from storage: Bucket not found'']
   \<and> fst (deletePaper ''p1'' demo_world) = Success ()
   \<and> papers (snd (deletePaper ''p1'' demo_world)) = []
   \<and> storage (snd (deletePaper ''p1'' demo_world)) = []"
proof -
  have h1: "demo_paper \<in> set (papers storage_down_world)"
    and h1': "demo_paper \<in> set (papers demo_world)"
    by (simp_all add: storage_down_world_def demo_world_def)
  have h2: "p_id demo_paper = ''p1''" and h3: "status demo_paper = ''pending''"
    by (simp_all add: demo_paper_def)
  have h4: "distinct (map p_id (papers storage_down_world))"
    and h4': "distinct (map p_id (papers demo_world))"
    by (simp_all add: storage_down_world_def demo_world_def)
  have h5: "faults storage_down_world (length (trace storage_down_world)) = None"
    and h6: "faults storage_down_world (length (trace storage_down_world) + 2) = None"
    and h5': "faults demo_world (length (trace demo_world)) = None"
    and h6': "faults demo_world (length (trace demo_world) + 2) = None"
    by (simp_all add: storage_down_world_def demo_world_def)
  have h7: "faults storage_down_world (length (trace storage_down_world) + 1)
              = Some ''Bucket not found''"
    and h7': "faults demo_world (length (trace demo_world) + 1) = None"
    by (simp_all add: storage_down_world_def demo_world_def)
  have s: "storage demo_world = [(units ''u1/1699999999999_paper.pdf'', demo_file)]"
     "papers demo_world = [demo_paper]" "papers storage_down_world = [demo_paper]"
     "warnings storage_down_world = []" "file_url demo_paper = units ''u1/1699999999999_paper.pdf''"
    by (simp_all add: storage_down_world_def demo_world_def demo_paper_def)
  from deletePaper_pending [OF h1 h2 h3 h4 h5 h6] deletePaper_pending [OF h1' h2 h3 h4' h5' h6']
  show ?thesis
    unfolding h7 h7' using h1 h3 h2 by (simp add: s)
qed

section \<open>Paper upload\<close>

text \<open>
  C2. A signed-in caller with a resolved profile uploads a 2 MiB file named by the
  letter U+0130 (capital I with dot above) followed by \<open>.pdf\<close>: its extension is pdf
  and its size is within the limit, yet \<open>uploadPaper\<close> answers the invalid-file-type
  failure and neither stores the file nor inserts a row. \<open>isValidFileType\<close> finds the
  last dot at position 1 of the name as given and cuts the lower-cased name there; the
  lower-cased name has one code unit more, so the cut falls before the dot.
\<close>

theorem uploadPaper_dotted_I_rejected:
  "getCurrentUser demo_world
     = (Some \<lparr>auth_uid = ''auth-ada'', auth_email = ''ada@example.org''\<rparr>,
        demo_world\<lparr>trace := [AuthGetUser]\<rparr>)
   \<and> getCurrentUserRecord (demo_world\<lparr>trace := [AuthGetUser]\<rparr>)
     = (Some (UserProfile demo_user), demo_world\<lparr>trace := [AuthGetUser, AuthGetUser, Select Users]\<rparr>)
   \<and> file_extension (f_name dotted_I_file) = Some (units ''pdf'')
   \<and> f_size dotted_I_file \<le> 10 * 1024 * 1024
   \<and> lastIndexOf (f_name dotted_I_file) dot = 1
   \<and> toLowerCase (f_name dotted_I_file) = [105, 775] @ units ''.pdf''
   \<and> fst (uploadPaper dotted_I_file demo_metadata demo_world) = Failure invalid_type_error
   \<and> papers (snd (uploadPaper dotted_I_file demo_metadata demo_world)) = [demo_paper]
   \<and> storage (snd (uploadPaper dotted_I_file demo_metadata demo_world))
       = [(units ''u1/1699999999999_paper.pdf'', demo_file)]"
proof -
  have 1: "getCurrentUser demo_world
     = (Some \<lparr>auth_uid = ''auth-ada'', auth_email = ''ada@example.org''\<rparr>,
        demo_world\<lparr>trace := [AuthGetUser]\<rparr>)"
    by (simp add: getCurrentUser_def send_def demo_world_def)
  have 2: "getCurrentUserRecord (demo_world\<lparr>trace := [AuthGetUser]\<rparr>)
     = (Some (UserProfile demo_user), demo_world\<lparr>trace := [AuthGetUser, AuthGetUser, Select Users]\<rparr>)"
    by (simp add: getCurrentUserRecord_def backend_defs demo_world_def demo_user_def)
  have 3: "file_extension (f_name dotted_I_file) = Some (units ''pdf'')"
    "f_size dotted_I_file \<le> 10 * 1024 * 1024"
    "lastIndexOf (f_name dotted_I_file) dot = 1"
    "toLowerCase (f_name dotted_I_file) = [105, 775] @ units ''.pdf''"
    by (simp_all add: file_extension_def dotted_I_file_def dotted_I_def toLowerCase_def
        toLowerCase_unit_def units_def dot_def)
  have 4: "\<not> isValidFileType (f_name dotted_I_file) [units ''.pdf'', units ''.doc'', units ''.docx'']"
    by (simp add: isValidFileType_def substring_def dotted_I_file_def dotted_I_def toLowerCase_def
        toLowerCase_unit_def units_def dot_def)
  have 5: "uploadPaper dotted_I_file demo_metadata demo_world
             = (Failure invalid_type_error,
                demo_world\<lparr>trace := [AuthGetUser, AuthGetUser, Select Users]\<rparr>)"
    using 4 by (simp add: uploadPaper_def 1 2 invalid_type_error_def)
  have 6: "papers demo_world = [demo_paper]"
    "storage demo_world = [(units ''u1/1699999999999_paper.pdf'', demo_file)]"
    by (simp_all add: demo_world_def)
  from 1 2 3 show ?thesis
    by (simp add: 5 6)
qed

text \<open>
  Names whose stem holds no U+0130 are checked as the specification says, and for them
  the upload goes through: a signed-in caller with a resolved profile, an allowed
  extension and a size of at most 10 MiB. When the bucket takes the file (the key is
  free) and the insert is answered, \<open>uploadPaper\<close> succeeds with a row whose status is
  \<open>pending\<close>, whose \<open>file_size_bytes\<close> is the file's size and whose \<open>file_url\<close> is
  the storage path made of the profile id, a slash, the time in milliseconds, an
  underscore and the file's name; the row is appended to \<open>papers\<close> and the file is
  stored under that path.
\<close>

lemma uploadPaper_succeeds:
  assumes "getCurrentUser w = (Some user, w1)"
    and "getCurrentUserRecord w1 = (Some userRecord, w2)"
    and "file_extension (f_name f) \<in> allowed_extensions"
    and "dotted_I \<notin> set (stem (f_name f))"
    and "f_size f \<le> 10 * 1024 * 1024"
    and "faults w (length (trace w2)) = None"
    and "storage_path (profile_id userRecord) (clock w (length (trace w2))) (f_name f)
           \<notin> fst ` set (storage w)"
    and "faults w (Suc (length (trace w2))) = None"
  shows "\<exists>row. fst (uploadPaper f md w) = Success row
       \<and> status row = ''pending''
       \<and> file_size_bytes row = f_size f
       \<and> file_url row
           = storage_path (profile_id userRecord) (clock w (length (trace w2))) (f_name f)
       \<and> file_name row = f_name f
       \<and> user_id row = profile_id userRecord
       \<and> papers (snd (uploadPaper f md w)) = papers w @ [row]
       \<and> storage (snd (uploadPaper f md w)) = storage w @ [(file_url row, f)]"
proof -
  from assms(1) have w1: "w1 = w\<lparr>trace := trace w @ [AuthGetUser]\<rparr>"
    using getCurrentUser_world [of w] by simp
  from getCurrentUserRecord_world [of w1] assms(2) obtain cs where
    w2: "w2 = w\<lparr>trace := trace w @ AuthGetUser # cs\<rparr>"
    by (auto simp: w1)
  from assms(3,4) have ok1: "isValidFileType (f_name f) [units ''.pdf'', units ''.doc'', units ''.docx'']"
    by (simp add: isValidFileType_iff)
  from assms(5) have ok2: "isValidFileSize (f_size f) 10"
    by (simp add: isValidFileSize_def)
  have st: "storage w2 = storage w" "faults w2 = faults w" "clock w2 = clock w" "papers w2 = papers w"
    by (simp_all add: w2)
  show ?thesis
    using assms(1,2,6,7,8) ok1 ok2 st
    by (simp add: uploadPaper_def Let_def storage_upload_def papers_insert_def send_def now_def
        storage_path_def)
qed

lemma uploadPaper_succeeds_example:
  "getCurrentUser demo_world
     = (Some \<lparr>auth_uid = ''auth-ada'', auth_email = ''ada@example.org''\<rparr>,
        demo_world\<lparr>trace := [AuthGetUser]\<rparr>)
   \<and> getCurrentUserRecord (demo_world\<lparr>trace := [AuthGetUser]\<rparr>)
     = (Some (UserProfile demo_user), demo_world\<lparr>trace := [AuthGetUser, AuthGetUser, Select Users]\<rparr>)
   \<and> file_extension (f_name demo_file) \<in> allowed_extensions
   \<and> f_size demo_file \<le> 10 * 1024 * 1024
   \<and> (\<exists>row. fst (uploadPaper demo_file demo_metadata demo_world) = Success row
         \<and> status row = ''pending''
         \<and> file_size_bytes row = 2097152
         \<and> file_url row = units ''u1/1700000000003_paper.pdf''
         \<and> papers (snd (uploadPaper demo_file demo_metadata demo_world)) = [demo_paper, row]
         \<and> storage (snd (uploadPaper demo_file demo_metadata demo_world))
             = [(units ''u1/1699999999999_paper.pdf'', demo_file),
                (units ''u1/1700000000003_paper.pdf'', demo_file)])"
proof -
  let ?w1 = "demo_world\<lparr>trace := [AuthGetUser]\<rparr>"
  let ?w2 = "demo_world\<lparr>trace := [AuthGetUser, AuthGetUser, Select Users]\<rparr>"
  let ?path = "storage_path (profile_id (UserProfile demo_user))
                 (clock demo_world (length (trace ?w2))) (f_name demo_file)"
  have h1: "getCurrentUser demo_world
     = (Some \<lparr>auth_uid = ''auth-ada'', auth_email = ''ada@example.org''\<rparr>, ?w1)"
    by (simp add: getCurrentUser_def send_def demo_world_def)
  have h2: "getCurrentUserRecord ?w1 = (Some (UserProfile demo_user), ?w2)"
    by (simp add: getCurrentUserRecord_def backend_defs demo_world_def demo_user_def)
  have h3: "file_extension (f_name demo_file) \<in> allowed_extensions"
    by (simp add: file_extension_def allowed_extensions_def demo_file_def toLowerCase_def
        toLowerCase_unit_def units_def dot_def)
  have h3': "dotted_I \<notin> set (stem (f_name demo_file))"
    by (simp add: stem_def demo_file_def dotted_I_def units_def dot_def)
  have h4: "f_size demo_file \<le> 10 * 1024 * 1024"
    by (simp add: demo_file_def)
  have sn: "String_nat (clock demo_world (length (trace ?w2))) = ''1700000000003''"
    by (simp add: demo_world_def String_nat.simps char_of_eq_iff)
  have path: "?path = units ''u1/1700000000003_paper.pdf''"
    unfolding storage_path_def sn by (simp add: demo_user_def demo_file_def units_def)
  have h5: "faults demo_world (length (trace ?w2)) = None"
    and h7: "faults demo_world (Suc (length (trace ?w2))) = None"
    by (simp_all add: demo_world_def)
  have h6: "?path \<notin> fst ` set (storage demo_world)"
    unfolding path by (simp add: demo_world_def units_def)
  have s: "papers demo_world = [demo_paper]"
    "storage demo_world = [(units ''u1/1699999999999_paper.pdf'', demo_file)]"
    "f_size demo_file = 2097152"
    by (simp_all add: demo_world_def demo_file_def)
  from uploadPaper_succeeds [OF h1 h2 h3 h3' h4 h5 h6 h7, of demo_metadata]
  obtain row where r: "fst (uploadPaper demo_file demo_metadata demo_world) = Success row"
    "status row = ''pending''" "file_size_bytes row = f_size demo_file"
    "file_url row = ?path"
    "papers (snd (uploadPaper demo_file demo_metadata demo_world)) = papers demo_world @ [row]"
    "storage (snd (uploadPaper demo_file demo_metadata demo_world))
       = storage demo_world @ [(file_url row, demo_file)]"
    by blast
  have url: "file_url row = units ''u1/1700000000003_paper.pdf''"
    unfolding r(4) by (rule path)
  have "fst (uploadPaper demo_file demo_metadata demo_world) = Success row
         \<and> status row = ''pending''
         \<and> file_size_bytes row = 2097152
         \<and> file_url row = units ''u1/1700000000003_paper.pdf''
         \<and> papers (snd (uploadPaper demo_file demo_metadata demo_world)) = [demo_paper, row]
         \<and> storage (snd (uploadPaper demo_file demo_metadata demo_world))
             = [(units ''u1/1699999999999_paper.pdf'', demo_file),
                (units ''u1/1700000000003_paper.pdf'', demo_file)]"
    using r(1,2,3,5,6) url by (simp add: s)
  then show ?thesis
    using h1 h2 h3 h4 by blast
qed

text \<open>
  C3. A file whose extension is not pdf, doc or docx is rejected: \<open>uploadPaper\<close>
  fails, nothing but the trace of requests changes, and the requests issued are the
  look-ups of the caller only (no upload, no insert). For a signed-in caller with a
  resolved profile the failure is the invalid-file-type message.
\<close>

theorem uploadPaper_invalid_type:
  assumes "file_extension (f_name f) \<notin> allowed_extensions"
  shows "is_failure (fst (uploadPaper f md w))
       \<and> papers (snd (uploadPaper f md w)) = papers w
       \<and> storage (snd (uploadPaper f md w)) = storage w
       \<and> (\<exists>cs. snd (uploadPaper f md w) = w\<lparr>trace := trace w @ cs\<rparr> \<and> set cs \<subseteq> lookups)
       \<and> (\<forall>user w1 userRecord w2.
             getCurrentUser w = (Some user, w1) \<and> getCurrentUserRecord w1 = (Some userRecord, w2)
             \<longrightarrow> fst (uploadPaper f md w) = Failure invalid_type_error)"
proof -
  from assms have bad: "\<not> isValidFileType (f_name f) [units ''.pdf'', units ''.doc'', units ''.docx'']"
    by (simp add: isValidFileType_iff)
  from uploadPaper_rejects [of f md w] bad obtain cs where
    fail: "is_failure (fst (uploadPaper f md w))"
    and w': "snd (uploadPaper f md w) = w\<lparr>trace := trace w @ AuthGetUser # cs\<rparr>"
    and cs: "set cs \<subseteq> lookups"
    by blast
  from cs have "set (AuthGetUser # cs) \<subseteq> lookups"
    by (simp add: lookups_def)
  with w' have "\<exists>cs. snd (uploadPaper f md w) = w\<lparr>trace := trace w @ cs\<rparr> \<and> set cs \<subseteq> lookups"
    by blast
  moreover have "fst (uploadPaper f md w) = Failure invalid_type_error"
    if "getCurrentUser w = (Some user, w1)" "getCurrentUserRecord w1 = (Some userRecord, w2)"
    for user w1 userRecord w2
    using that bad by (simp add: uploadPaper_def invalid_type_error_def)
  ultimately show ?thesis
    using fail w' by (auto simp: w')
qed

theorem uploadPaper_invalid_type_witness:
  "file_extension (f_name text_file) \<notin> allowed_extensions
   \<and> fst (uploadPaper text_file demo_metadata demo_world) = Failure invalid_type_error
   \<and> papers (snd (uploadPaper text_file demo_metadata demo_world)) = [demo_paper]
   \<and> storage (snd (uploadPaper text_file demo_metadata demo_world))
       = [(units ''u1/1699999999999_paper.pdf'', demo_file)]"
proof -
  let ?w1 = "demo_world\<lparr>trace := [AuthGetUser]\<rparr>"
  let ?w2 = "demo_world\<lparr>trace := [AuthGetUser, AuthGetUser, Select Users]\<rparr>"
  have h1: "getCurrentUser demo_world
     = (Some \<lparr>auth_uid = ''auth-ada'', auth_email = ''ada@example.org''\<rparr>, ?w1)"
    by (simp add: getCurrentUser_def send_def demo_world_def)
  have h2: "getCurrentUserRecord ?w1 = (Some (UserProfile demo_user), ?w2)"
    by (simp add: getCurrentUserRecord_def backend_defs demo_world_def demo_user_def)
  have h3: "file_extension (f_name text_file) \<notin> allowed_extensions"
    by (simp add: file_extension_def allowed_extensions_def text_file_def toLowerCase_def
        toLowerCase_unit_def units_def dot_def)
  have s: "papers demo_world = [demo_paper]"
    "storage demo_world = [(units ''u1/1699999999999_paper.pdf'', demo_file)]"
    by (simp_all add: demo_world_def)
  from uploadPaper_invalid_type [OF h3, of demo_metadata demo_world] h1 h2 h3
  show ?thesis by (simp add: s)
qed

text \<open>
  C4, as stated, fails: a signed-in user's 11 MiB file is rejected for its size only
  after the identity look-up, the second identity look-up of \<open>getCurrentUserRecord\<close>
  and the query of \<open>users\<close> have gone out.
\<close>

theorem uploadPaper_size_after_lookups:
  "10 * 1024 * 1024 < f_size big_file
   \<and> trace demo_world = []
   \<and> fst (uploadPaper big_file demo_metadata demo_world) = Failure too_large_error
   \<and> trace (snd (uploadPaper big_file demo_metadata demo_world))
       = [AuthGetUser, AuthGetUser, Select Users]"
  by (simp add: uploadPaper_def getCurrentUserRecord_def backend_defs demo_world_def demo_user_def
      big_file_def too_large_error_def isValidFileSize_def isValidFileType_def toLowerCase_def
      substring_def toLowerCase_unit_def units_def dot_def)

text \<open>
  C4, amended. A file larger than 10 MiB is rejected before any storage request and
  before any write to the database: \<open>uploadPaper\<close> fails, nothing but the trace of
  requests changes, and the requests issued are the identity look-up followed by
  look-ups of the caller's profile only. For a signed-in caller with a resolved profile
  and a name that passes the type check (an allowed extension, no U+0130 in the stem)
  the failure is the size message.
\<close>

theorem uploadPaper_too_large:
  assumes "10 * 1024 * 1024 < f_size f"
  shows "is_failure (fst (uploadPaper f md w))
       \<and> papers (snd (uploadPaper f md w)) = papers w
       \<and> storage (snd (uploadPaper f md w)) = storage w
       \<and> (\<exists>cs. snd (uploadPaper f md w) = w\<lparr>trace := trace w @ AuthGetUser # cs\<rparr>
              \<and> set cs \<subseteq> lookups)
       \<and> (\<forall>user w1 userRecord w2.
             getCurrentUser w = (Some user, w1) \<and> getCurrentUserRecord w1 = (Some userRecord, w2)
             \<and> file_extension (f_name f) \<in> allowed_extensions
             \<and> dotted_I \<notin> set (stem (f_name f))
             \<longrightarrow> fst (uploadPaper f md w) = Failure too_large_error)"
proof -
  from assms have bad: "\<not> isValidFileSize (f_size f) 10"
    by (simp add: isValidFileSize_def)
  from uploadPaper_rejects [of f md w] bad obtain cs where
    fail: "is_failure (fst (uploadPaper f md w))"
    and w': "snd (uploadPaper f md w) = w\<lparr>trace := trace w @ AuthGetUser # cs\<rparr>"
    and cs: "set cs \<subseteq> lookups"
    by blast
  have "fst (uploadPaper f md w) = Failure too_large_error"
    if "getCurrentUser w = (Some user, w1)" "getCurrentUserRecord w1 = (Some userRecord, w2)"
      "file_extension (f_name f) \<in> allowed_extensions" "dotted_I \<notin> set (stem (f_name f))"
    for user w1 userRecord w2
  proof -
    from that(3,4) have "isValidFileType (f_name f) [units ''.pdf'', units ''.doc'', units ''.docx'']"
      by (simp add: isValidFileType_iff)
    with that(1,2) bad show ?thesis
      by (simp add: uploadPaper_def too_large_error_def)
  qed
  then show ?thesis
    using fail w' cs by (auto simp: w')
qed

theorem uploadPaper_too_large_witness:
  "10 * 1024 * 1024 < f_size big_file
   \<and> file_extension (f_name big_file) \<in> allowed_extensions
   \<and> fst (uploadPaper big_file demo_metadata demo_world) = Failure too_large_error
   \<and> papers (snd (uploadPaper big_file demo_metadata demo_world)) = [demo_paper]
   \<and> storage (snd (uploadPaper big_file demo_metadata demo_world))
       = [(units ''u1/1699999999999_paper.pdf'', demo_file)]"
proof -
  let ?w1 = "demo_world\<lparr>trace := [AuthGetUser]\<rparr>"
  let ?w2 = "demo_world\<lparr>trace := [AuthGetUser, AuthGetUser, Select Users]\<rparr>"
  have h0: "10 * 1024 * 1024 < f_size big_file"
    by (simp add: big_file_def)
  have h1: "getCurrentUser demo_world
     = (Some \<lparr>auth_uid = ''auth-ada'', auth_email = ''ada@example.org''\<rparr>, ?w1)"
    by (simp add: getCurrentUser_def send_def demo_world_def)
  have h2: "getCurrentUserRecord ?w1 = (Some (UserProfile demo_user), ?w2)"
    by (simp add: getCurrentUserRecord_def backend_defs demo_world_def demo_user_def)
  have h3: "file_extension (f_name big_file) \<in> allowed_extensions"
    by (simp add: file_extension_def allowed_extensions_def big_file_def toLowerCase_def
        toLowerCase_unit_def units_def dot_def)
  have h3': "dotted_I \<notin> set (stem (f_name big_file))"
    by (simp add: stem_def big_file_def dotted_I_def units_def dot_def)
  have s: "papers demo_world = [demo_paper]"
    "storage demo_world = [(units ''u1/1699999999999_paper.pdf'', demo_file)]"
    by (simp_all add: demo_world_def)
  from uploadPaper_too_large [OF h0, of demo_metadata demo_world] h1 h2 h3 h3'
  have "fst (uploadPaper big_file demo_metadata demo_world) = Failure too_large_error"
    by blast
  with uploadPaper_too_large [OF h0, of demo_metadata demo_world] h0 h3
  show ?thesis by (simp add: s)
qed

section \<open>Role resolution\<close>

text \<open>
  C8. \<open>isAdmin\<close> answers an admin row only if that row is in \<open>admins\<close>, is active
  and carries the signed-in identity's id; when both requests are answered and the
  identity has at most one active row, an active matching row is answered. Without a
  signed-in identity the answer is \<open>null\<close>, and so it is when every row of the identity
  is deactivated. The gateway's and the authentication module's \<open>isAdmin\<close> agree.
\<close>

theorem isAdmin_iff_active_row:
  "(\<forall>a. fst (isAdmin w) = Some a \<longrightarrow>
        (\<exists>user. session w = Some user \<and> a \<in> set (admins w)
            \<and> a_auth_id a = auth_uid user \<and> is_active a = True))
   \<and> (faults w (length (trace w)) = None \<and> faults w (Suc (length (trace w))) = None
        \<and> (\<forall>user. session w = Some user \<longrightarrow>
              length (filter (\<lambda>r. a_auth_id r = auth_uid user \<and> is_active r = True) (admins w)) \<le> 1)
       \<longrightarrow> (\<forall>user a. session w = Some user \<and> a \<in> set (admins w)
              \<and> a_auth_id a = auth_uid user \<and> is_active a = True
            \<longrightarrow> fst (isAdmin w) = Some a))
   \<and> (session w = None \<longrightarrow> fst (isAdmin w) = None)
   \<and> (\<forall>user. session w = Some user
          \<and> (\<forall>a\<in>set (admins w). a_auth_id a = auth_uid user \<longrightarrow> is_active a = False)
        \<longrightarrow> fst (isAdmin w) = None)
   \<and> auth_isAdmin w = isAdmin w"
proof -
  have sound: "\<exists>user. session w = Some user \<and> a \<in> set (admins w)
                 \<and> a_auth_id a = auth_uid user \<and> is_active a = True"
    if "fst (isAdmin w) = Some a" for a
    using that by (rule isAdmin_sound)
  have complete: "fst (isAdmin w) = Some a"
    if "faults w (length (trace w)) = None" "faults w (Suc (length (trace w))) = None"
      and one: "\<forall>user. session w = Some user \<longrightarrow>
              length (filter (\<lambda>r. a_auth_id r = auth_uid user \<and> is_active r = True) (admins w)) \<le> 1"
      and "session w = Some user" "a \<in> set (admins w)"
      "a_auth_id a = auth_uid user" "is_active a = True"
    for user a
  proof -
    from one that(4) have
      "length (filter (\<lambda>r. a_auth_id r = auth_uid user \<and> is_active r = True) (admins w)) \<le> 1"
      by blast
    then have "filter (\<lambda>r. a_auth_id r = auth_uid user \<and> is_active r = True) (admins w) = [a]"
      using that(5,6,7) by (intro filter_le_one) auto
    from isAdmin_SomeI [OF that(4) that(1,2) this] show ?thesis by simp
  qed
  have anon: "fst (isAdmin w) = None" if "session w = None"
    using that by (rule isAdmin_no_session)
  have inactive: "fst (isAdmin w) = None"
    if "session w = Some user"
      "\<forall>a\<in>set (admins w). a_auth_id a = auth_uid user \<longrightarrow> is_active a = False"
    for user
    using that by (rule isAdmin_inactive)
  from sound complete anon inactive auth_isAdmin_eq show ?thesis
    by blast
qed

theorem isAdmin_iff_active_row_witness:
  "faults admin_world (length (trace admin_world)) = None
   \<and> faults admin_world (Suc (length (trace admin_world))) = None
   \<and> session admin_world = Some \<lparr>auth_uid = ''auth-grace'', auth_email = ''grace@example.org''\<rparr>
   \<and> demo_admin \<in> set (admins admin_world) \<and> is_active demo_admin = True
   \<and> fst (isAdmin admin_world) = Some demo_admin
   \<and> session deactivated_world = Some \<lparr>auth_uid = ''auth-grace'', auth_email = ''grace@example.org''\<rparr>
   \<and> fst (isAdmin deactivated_world) = None
   \<and> session (admin_world\<lparr>session := None\<rparr>) = None
   \<and> fst (isAdmin (admin_world\<lparr>session := None\<rparr>)) = None"
proof -
  let ?g = "\<lparr>auth_uid = ''auth-grace'', auth_email = ''grace@example.org''\<rparr>"
  have a: "faults admin_world (length (trace admin_world)) = None"
    "faults admin_world (Suc (length (trace admin_world))) = None"
    "session admin_world = Some ?g"
    "demo_admin \<in> set (admins admin_world)" "is_active demo_admin = True"
    "a_auth_id demo_admin = auth_uid ?g"
    "\<forall>user. session admin_world = Some user \<longrightarrow>
       length (filter (\<lambda>r. a_auth_id r = auth_uid user \<and> is_active r = True)
                 (admins admin_world)) \<le> 1"
    by (simp_all add: admin_world_def demo_world_def demo_admin_def)
  have d: "session deactivated_world = Some ?g"
    "\<forall>a\<in>set (admins deactivated_world). a_auth_id a = auth_uid ?g \<longrightarrow> is_active a = False"
    by (simp_all add: deactivated_world_def admin_world_def demo_world_def)
  have n: "session (admin_world\<lparr>session := None\<rparr>) = None"
    by simp
  from isAdmin_iff_active_row [of admin_world] a
  have 1: "fst (isAdmin admin_world) = Some demo_admin" by blast
  from isAdmin_iff_active_row [of deactivated_world] d
  have 2: "fst (isAdmin deactivated_world) = None" by blast
  from isAdmin_iff_active_row [of "admin_world\<lparr>session := None\<rparr>"] n
  have 3: "fst (isAdmin (admin_world\<lparr>session := None\<rparr>)) = None" by blast
  from a d n 1 2 3 show ?thesis by simp
qed

section \<open>Admin review path\<close>




text \<open>
  C10. \<open>adminDeletePaper\<close> never looks at the answer of the storage removal: for an
  admin and an existing paper of any status, when the fetch and the delete request are
  answered, the operation succeeds and the row is gone whether the bucket removed the
  file or refused; in the second case the bucket is as before and nothing is printed.
\<close>

theorem adminDeletePaper_best_effort:
  assumes adm: "fst (isAdmin w) = Some admin"
    and "p \<in> set (papers w)" and "p_id p = paperId"
    and "distinct (map p_id (papers w))"
    and "faults w (length (trace w) + 2) = None"
    and "faults w (length (trace w) + 4) = None"
  shows "fst (adminDeletePaper paperId w) = Success ()
       \<and> papers (snd (adminDeletePaper paperId w)) = filter (\<lambda>q. p_id q \<noteq> paperId) (papers w)
       \<and> p \<notin> set (papers (snd (adminDeletePaper paperId w)))
       \<and> warnings (snd (adminDeletePaper paperId w)) = warnings w
       \<and> trace (snd (adminDeletePaper paperId w))
           = trace w @ [AuthGetUser, Select Admins, Select Papers,
                        StorageRemove [file_url p], Delete Papers]
       \<and> (case faults w (length (trace w) + 3) of
             None \<Rightarrow> storage (snd (adminDeletePaper paperId w))
                       = filter (\<lambda>(k, f). k \<noteq> file_url p) (storage w)
           | Some e \<Rightarrow> storage (snd (adminDeletePaper paperId w)) = storage w)"
proof -
  from assms have sel: "filter (\<lambda>q. p_id q = paperId) (papers w) = [p]"
    using filter_key_unique [of p_id "papers w" p] by simp
  from isAdmin_Some_fstD [OF adm]
  have ia: "isAdmin w = (Some admin, w\<lparr>trace := trace w @ [AuthGetUser, Select Admins]\<rparr>)"
    by blast
  have f2: "faults w (Suc (Suc (length (trace w)))) = None"
    using assms(5) by simp
  have f4: "faults w (Suc (Suc (Suc (Suc (length (trace w)))))) = None"
    using assms(6) by (simp add: eval_nat_numeral)
  have f3: "faults w (length (trace w) + 3) = faults w (Suc (Suc (Suc (length (trace w)))))"
    by (simp add: eval_nat_numeral)
  show ?thesis
    unfolding f3
    using assms(3) sel f2 f4
    by (simp add: adminDeletePaper_def ia backend_defs Let_def split: option.splits)
qed

theorem adminDeletePaper_best_effort_witness:
  "fst (isAdmin admin_storage_down_world) = Some demo_admin
   \<and> demo_paper\<lparr>status := ''accepted''\<rparr> \<in> set (papers admin_storage_down_world)
   \<and> faults admin_storage_down_world (length (trace admin_storage_down_world) + 3)
       = Some ''Bucket not found''
   \<and> fst (adminDeletePaper ''p1'' admin_storage_down_world) = Success ()
   \<and> papers (snd (adminDeletePaper ''p1'' admin_storage_down_world)) = []
   \<and> storage (snd (adminDeletePaper ''p1'' admin_storage_down_world))
       = [(units ''u1/1699999999999_paper.pdf'', demo_file)]
   \<and> warnings (snd (adminDeletePaper ''p1'' admin_storage_down_world)) = []"
proof -
  let ?w = admin_storage_down_world
  have h1: "fst (isAdmin ?w) = Some demo_admin"
    by (simp add: isAdmin_def backend_defs admin_storage_down_world_def admin_world_def
        demo_world_def demo_admin_def)
  have h2: "demo_paper\<lparr>status := ''accepted''\<rparr> \<in> set (papers ?w)"
    and h3: "p_id (demo_paper\<lparr>status := ''accepted''\<rparr>) = ''p1''"
    and h4: "distinct (map p_id (papers ?w))"
    and h5: "faults ?w (length (trace ?w) + 2) = None"
    and h6: "faults ?w (length (trace ?w) + 4) = None"
    and h7: "faults ?w (length (trace ?w) + 3) = Some ''Bucket not found''"
    by (simp_all add: admin_storage_down_world_def admin_world_def demo_world_def demo_paper_def)
  have s: "papers ?w = [demo_paper\<lparr>status := ''accepted''\<rparr>]"
    "storage ?w = [(units ''u1/1699999999999_paper.pdf'', demo_file)]" "warnings ?w = []"
    by (simp_all add: admin_storage_down_world_def admin_world_def demo_world_def)
  from adminDeletePaper_best_effort [OF h1 h2 h3 h4 h5 h6]
  show ?thesis
    unfolding h7 using h1 h2 h3 by (simp add: s)
qed

text \<open>
  C7. For an admin, \<open>deleteAllPapers\<close> reads all file paths, asks the bucket to remove
  the non-empty ones in one request (whose answer is not looked at), deletes every row
  of \<open>papers\<close>, appends exactly one activity-log row carrying the number of papers, and
  answers success with that number. The rows are selected by an id different from the
  all-zero UUID, which no stored paper carries; every request other than the storage
  removal is answered.
\<close>

theorem deleteAllPapers_contract:
  assumes adm: "fst (isAdmin w) = Some admin"
    and ids: "\<forall>p\<in>set (papers w). p_id p \<noteq> nil_uuid"
    and ok: "\<forall>n. n \<noteq> 3 \<or> stored_paths w = [] \<longrightarrow> faults w (length (trace w) + n) = None"
  shows "fst (deleteAllPapers w) = Success (length (papers w))
       \<and> papers (snd (deleteAllPapers w)) = []
       \<and> activity_logs (snd (deleteAllPapers w)) =
           activity_logs w @
             [\<lparr>admin_id = a_id admin, actor_email = a_email admin, actor_role = a_role admin,
               action_type = ''delete_all_papers'', target_table = ''papers'',
               target_id = None, new_data = [(''count'', JNum (length (papers w)))]\<rparr>]
       \<and> trace (snd (deleteAllPapers w)) =
           trace w @ [AuthGetUser, Select Admins, Select Papers]
             @ (if stored_paths w = [] then [] else [StorageRemove (stored_paths w)])
             @ [Delete Papers, AuthGetUser, Select Admins, Insert ActivityLogs]
       \<and> storage (snd (deleteAllPapers w)) =
           (if stored_paths w = [] \<or> faults w (length (trace w) + 3) \<noteq> None then storage w
            else filter (\<lambda>(k, f). k \<notin> set (stored_paths w)) (storage w))"
proof -
  let ?n = "length (trace w)"
  from isAdmin_Some_fstD [OF adm] obtain user where
    u: "session w = Some user"
    and sel: "filter (\<lambda>r. a_auth_id r = auth_uid user \<and> is_active r = True) (admins w) = [admin]"
    and f0: "faults w (length (trace w)) = None"
    and f1: "faults w (Suc (length (trace w))) = None"
    by blast
  from ids have gone: "filter (\<lambda>p. p_id p = nil_uuid) (papers w) = []"
    by (simp add: filter_empty_conv)
  have f2: "faults w (Suc (Suc ?n)) = None"
    using ok [rule_format, of 2] by simp
  have f4: "faults w (Suc (Suc (Suc (Suc ?n)))) = None"
    using ok [rule_format, of 4] by (simp add: Suc_add_numerals)
  have f5: "faults w (Suc (Suc (Suc (Suc (Suc ?n))))) = None"
    using ok [rule_format, of 5] by (simp add: Suc_add_numerals)
  have f6: "faults w (Suc (Suc (Suc (Suc (Suc (Suc ?n)))))) = None"
    using ok [rule_format, of 6] by (simp add: Suc_add_numerals)
  have f7: "faults w (Suc (Suc (Suc (Suc (Suc (Suc (Suc ?n))))))) = None"
    using ok [rule_format, of 7] by (simp add: Suc_add_numerals)
  show ?thesis
  proof (cases "stored_paths w = []")
    case True
    then have e: "filter (\<lambda>url. url \<noteq> []) (map file_url (papers w)) = []"
      by (simp add: stored_paths_def)
    have f3: "faults w (Suc (Suc (Suc ?n))) = None"
      using ok [rule_format, of 3] True by (simp add: Suc_add_numerals)
    show ?thesis
      using True e u sel gone f0 f1 f2 f3 f4 f5 f6
      by (simp add: deleteAllPapers_def logAdminActivity_def isAdmin_def backend_defs Let_def)
  next
    case False
    then have e: "filter (\<lambda>url. url \<noteq> []) (map file_url (papers w)) \<noteq> []"
      and pe: "papers w \<noteq> []"
      by (auto simp add: stored_paths_def)
    have e3: "?n + 3 = Suc (Suc (Suc ?n))" by simp
    show ?thesis
      unfolding e3
      using False e pe u sel gone f0 f1 f2 f4 f5 f6 f7
      by (simp add: deleteAllPapers_def logAdminActivity_def isAdmin_def backend_defs Let_def
          stored_paths_def split: option.splits)
  qed
qed

theorem deleteAllPapers_contract_witness:
  "fst (isAdmin five_papers_world) = Some demo_admin
   \<and> length (papers five_papers_world) = 5
   \<and> nil_uuid \<notin> set (map p_id (papers five_papers_world))
   \<and> fst (deleteAllPapers five_papers_world) = Success 5
   \<and> papers (snd (deleteAllPapers five_papers_world)) = []
   \<and> storage (snd (deleteAllPapers five_papers_world)) = []
   \<and> activity_logs (snd (deleteAllPapers five_papers_world)) =
        [\<lparr>admin_id = ''a1'', actor_email = ''grace@example.org'', actor_role = ''super_admin'',
          action_type = ''delete_all_papers'', target_table = ''papers'',
          target_id = None, new_data = [(''count'', JNum 5)]\<rparr>]"
proof -
  let ?w = five_papers_world
  have h1: "fst (isAdmin ?w) = Some demo_admin"
    by (simp add: isAdmin_def backend_defs five_papers_world_def admin_world_def
        demo_world_def demo_admin_def)
  have h2: "\<forall>p\<in>set (papers ?w). p_id p \<noteq> nil_uuid"
    by (simp add: five_papers_world_def five_papers_def demo_paper_def nil_uuid_def)
  have h3: "\<forall>n. n \<noteq> 3 \<or> stored_paths ?w = [] \<longrightarrow> faults ?w (length (trace ?w) + n) = None"
    by (simp add: five_papers_world_def admin_world_def demo_world_def)
  have sp: "stored_paths ?w = map file_url five_papers"
    by (simp add: stored_paths_def five_papers_world_def five_papers_def demo_paper_def units_def)
  have s: "length (papers ?w) = 5" "activity_logs ?w = []"
    "faults ?w (length (trace ?w) + 3) = None"
    "storage ?w = map (\<lambda>p. (file_url p, demo_file)) five_papers"
    "a_id demo_admin = ''a1''" "a_email demo_admin = ''grace@example.org''"
    "a_role demo_admin = ''super_admin''"
    by (simp_all add: five_papers_world_def five_papers_def admin_world_def demo_world_def
        demo_admin_def)
  have st: "filter (\<lambda>(k, f). k \<notin> set (map file_url five_papers))
              (map (\<lambda>p. (file_url p, demo_file)) five_papers) = []"
    by (simp add: five_papers_def)
  have h2': "nil_uuid \<notin> set (map p_id (papers ?w))"
    using h2 by auto
  from deleteAllPapers_contract [OF h1 h2 h3]
  show ?thesis
    unfolding sp using h1 h2' by (simp add: s st)
qed

section \<open>Registration categories\<close>

text \<open>
  C9. The category sent to the registration insert: a value that begins with
  \<open>listener_\<close> becomes \<open>listener\<close>, \<open>scholar\<close> becomes \<open>student\<close>, \<open>expert\<close>
  becomes \<open>scientist\<close>, every other value is passed on as it is, and no selection
  stays no selection.
\<close>

theorem normalizedCategory_rules:
  "normalizedCategory (Some (''listener_'' @ rest)) = Some ''listener''
   \<and> normalizedCategory (Some ''scholar'') = Some ''student''
   \<and> normalizedCategory (Some ''expert'') = Some ''scientist''
   \<and> ((\<forall>r. c \<noteq> ''listener_'' @ r) \<and> c \<noteq> ''scholar'' \<and> c \<noteq> ''expert''
        \<longrightarrow> normalizedCategory (Some c) = Some c)
   \<and> normalizedCategory None = None"
proof -
  have "startsWith (''listener_'' @ rest) ''listener_''"
    by (simp add: startsWith_iff)
  then have 1: "normalizedCategory (Some (''listener_'' @ rest)) = Some ''listener''"
    by (simp add: normalizedCategory_def)
  have 2: "normalizedCategory (Some ''scholar'') = Some ''student''"
    and 3: "normalizedCategory (Some ''expert'') = Some ''scientist''"
    and 5: "normalizedCategory None = None"
    by (simp_all add: normalizedCategory_def startsWith_def)
  have 4: "normalizedCategory (Some c) = Some c"
    if "\<forall>r. c \<noteq> ''listener_'' @ r" "c \<noteq> ''scholar''" "c \<noteq> ''expert''"
  proof -
    from that(1) have "\<not> startsWith c ''listener_''"
      by (simp add: startsWith_iff)
    with that(2,3) show ?thesis
      by (simp add: normalizedCategory_def)
  qed
  from 1 2 3 4 5 show ?thesis by blast
qed

theorem normalizedCategory_rules_witness:
  "''student'' \<noteq> ''scholar'' \<and> ''student'' \<noteq> ''expert''
   \<and> normalizedCategory (Some ''student'') = Some ''student''
   \<and> normalizedCategory (Some ''listener_onsite'') = Some ''listener''"
proof -
  have h: "\<forall>r. ''student'' \<noteq> ''listener_'' @ r" "''student'' \<noteq> ''scholar''"
    "''student'' \<noteq> ''expert''"
    by simp_all
  from normalizedCategory_rules [of "''onsite''" "''student''"] h
  show ?thesis by simp
qed

end
